theory Spec2Isabelle
  imports Main "HOL-Library.Sublist" "HOL-Library.AList"
begin

section \<open>Python values handled by the JSON-RPC dispatcher\<close>

text \<open>
  \<^verbatim>\<open>request.json\<close> hands the dispatcher a parsed JSON document: \<^verbatim>\<open>None\<close>, a bool,
  an int, a float, a str, a list or a dict with string keys. A finite float is kept as
  mantissa and binary exponent (the value is \<open>m * 2 ^ e\<close>); the dispatcher only looks at
  its type and at whether it is zero (\<^verbatim>\<open>NaN\<close> and the infinities, which the JSON grammar
  does not have, are left out). A dict is an association list read with
  \<open>map_of\<close>. \<open>PyEllipsis\<close> is the literal \<^verbatim>\<open>...\<close> that \<^verbatim>\<open>origin.py\<close> stores.
\<close>

datatype py_value =
    PyNone
  | PyBool bool
  | PyInt int
  | PyFloat int int
  | PyStr string
  | PyList "py_value list"
  | PyDict "(string \<times> py_value) list"
  | PyEllipsis

text \<open>The exception classes that can reach the dispatcher. \<open>OtherException\<close> carries the
  name of a class that is none of the others and derives from none of them.\<close>

datatype exn =
    TypeError string
  | RpcError int string
  | KeyError string
  | AttributeError string
  | RuntimeError string
  | StarkException string int
  | OtherException string

fun type_name :: "py_value \<Rightarrow> string" where
  "type_name PyNone = ''NoneType''"
| "type_name (PyBool _) = ''bool''"
| "type_name (PyInt _) = ''int''"
| "type_name (PyFloat _ _) = ''float''"
| "type_name (PyStr _) = ''str''"
| "type_name (PyList _) = ''list''"
| "type_name (PyDict _) = ''dict''"
| "type_name PyEllipsis = ''ellipsis''"

text \<open>Truth value of an object, as \<^verbatim>\<open>or\<close> tests it.\<close>

fun truthy :: "py_value \<Rightarrow> bool" where
  "truthy PyNone = False"
| "truthy (PyBool b) = b"
| "truthy (PyInt i) = (i \<noteq> 0)"
| "truthy (PyFloat m e) = (m \<noteq> 0)"
| "truthy (PyStr s) = (s \<noteq> [])"
| "truthy (PyList xs) = (xs \<noteq> [])"
| "truthy (PyDict kvs) = (kvs \<noteq> [])"
| "truthy PyEllipsis = True"

text \<open>\<^verbatim>\<open>body[key]\<close> with a string key (messages as CPython 3.9 words them).\<close>

fun getitem :: "py_value \<Rightarrow> string \<Rightarrow> exn + py_value" where
  "getitem (PyDict kvs) key =
     (case map_of kvs key of None \<Rightarrow> Inl (KeyError key) | Some v \<Rightarrow> Inr v)"
| "getitem (PyList xs) key = Inl (TypeError ''list indices must be integers or slices, not str'')"
| "getitem (PyStr s) key = Inl (TypeError ''string indices must be integers'')"
| "getitem v key = Inl (TypeError (CHR 0x27 # type_name v @ CHR 0x27 # '' object is not subscriptable''))"

text \<open>\<^verbatim>\<open>body.get(key)\<close>: the default is \<^verbatim>\<open>None\<close>; only a dict has the method.\<close>

fun dict_get :: "py_value \<Rightarrow> string \<Rightarrow> exn + py_value" where
  "dict_get (PyDict kvs) key =
     (case map_of kvs key of None \<Rightarrow> Inr PyNone | Some v \<Rightarrow> Inr v)"
| "dict_get v key = Inl (AttributeError (CHR 0x27 # type_name v @ CHR 0x27 # '' object has no attribute '' @ CHR 0x27 # ''get'' @ [CHR 0x27]))"

text \<open>\<^verbatim>\<open>str.replace(old, new)\<close>: every occurrence, found from the left, occurrences not
  overlapping.\<close>

function replace :: "string \<Rightarrow> string \<Rightarrow> string \<Rightarrow> string" where
  "replace old new s =
     (if old = [] then new @ concat (map (\<lambda>c. c # new) s)
      else if prefix old s then new @ replace old new (drop (length old) s)
      else (case s of [] \<Rightarrow> [] | c # cs \<Rightarrow> c # replace old new cs))"
  by pat_completeness auto
termination
  by (relation "measure (\<lambda>(old, new, s). length s)") (auto simp: prefix_def)

declare replace.simps [simp del]

text \<open>\<^verbatim>\<open>body["method"].replace("starknet_", "")\<close>: only a str has the method.\<close>

fun method_replace :: "py_value \<Rightarrow> exn + string" where
  "method_replace (PyStr s) = Inr (replace ''starknet_'' '''' s)"
| "method_replace v = Inl (AttributeError (CHR 0x27 # type_name v @ CHR 0x27 # '' object has no attribute '' @ CHR 0x27 # ''replace'' @ [CHR 0x27]))"

section \<open>The method registry\<close>

text \<open>A handler is called with positional and keyword arguments, \<^verbatim>\<open>method( *args, **kwargs)\<close>.
  It returns a value or raises; a failure to bind the arguments to the handler's
  parameters is the \<^verbatim>\<open>TypeError\<close> Python raises at the call.\<close>

type_synonym handler = "py_value list \<Rightarrow> (string \<times> py_value) list \<Rightarrow> exn + py_value"

text \<open>The handler functions are imported from modules outside this development
  (\<^verbatim>\<open>blueprints/rpc/blocks.py\<close>, \<^verbatim>\<open>call.py\<close>, \<^verbatim>\<open>classes.py\<close>, \<^verbatim>\<open>misc.py\<close>, \<^verbatim>\<open>state.py\<close>,
  \<^verbatim>\<open>storage.py\<close>, \<^verbatim>\<open>transactions.py\<close>); they are parameters of the model.\<close>

record handlers =
  get_block_with_tx_hashes :: handler
  get_block_with_txs :: handler
  get_state_update :: handler
  get_storage_at :: handler
  get_transaction_by_hash :: handler
  get_transaction_by_block_id_and_index :: handler
  get_transaction_receipt :: handler
  get_class :: handler
  get_class_hash_at :: handler
  get_class_at :: handler
  get_block_transaction_count :: handler
  call :: handler
  estimate_fee :: handler
  block_number :: handler
  block_hash_and_number :: handler
  chain_id :: handler
  pending_transactions :: handler
  syncing :: handler
  get_events :: handler
  get_nonce :: handler
  add_invoke_transaction :: handler
  add_declare_transaction :: handler
  add_deploy_transaction :: handler

definition methods :: "handlers \<Rightarrow> (string \<times> handler) list" where
  "methods hs =
     [(''getBlockWithTxHashes'', get_block_with_tx_hashes hs),
      (''getBlockWithTxs'', get_block_with_txs hs),
      (''getStateUpdate'', get_state_update hs),
      (''getStorageAt'', get_storage_at hs),
      (''getTransactionByHash'', get_transaction_by_hash hs),
      (''getTransactionByBlockIdAndIndex'', get_transaction_by_block_id_and_index hs),
      (''getTransactionReceipt'', get_transaction_receipt hs),
      (''getClass'', get_class hs),
      (''getClassHashAt'', get_class_hash_at hs),
      (''getClassAt'', get_class_at hs),
      (''getBlockTransactionCount'', get_block_transaction_count hs),
      (''call'', call hs),
      (''estimateFee'', estimate_fee hs),
      (''blockNumber'', block_number hs),
      (''blockHashAndNumber'', block_hash_and_number hs),
      (''chainId'', chain_id hs),
      (''pendingTransactions'', pending_transactions hs),
      (''syncing'', syncing hs),
      (''getEvents'', get_events hs),
      (''getNonce'', get_nonce hs),
      (''addInvokeTransaction'', add_invoke_transaction hs),
      (''addDeclareTransaction'', add_declare_transaction hs),
      (''addDeployTransaction'', add_deploy_transaction hs)]"

section \<open>Error codes and response envelopes\<close>

datatype RpcErrorCode = INVALID_REQUEST | METHOD_NOT_FOUND | INVALID_PARAMS

text \<open>Modelled from the spec: the enumeration \<^verbatim>\<open>RpcErrorCode\<close> of
  \<^verbatim>\<open>blueprints/rpc/structures/types.py\<close>, whose members the dispatcher names. The
  specification keeps the codes symbolic and fixes their numbers by the target protocol,
  JSON-RPC 2.0, which gives the three members the numbers below.\<close>

fun RpcErrorCode_value :: "RpcErrorCode \<Rightarrow> int" where
  "RpcErrorCode_value INVALID_REQUEST = - 32600"
| "RpcErrorCode_value METHOD_NOT_FOUND = - 32601"
| "RpcErrorCode_value INVALID_PARAMS = - 32602"

text \<open>Modelled from the spec: the helpers \<^verbatim>\<open>rpc_response\<close> and \<^verbatim>\<open>rpc_error\<close> of
  \<^verbatim>\<open>blueprints/rpc/utils.py\<close>. The response envelope is either \<open>{id, result}\<close> or
  \<open>{id, error: {code, message}}\<close>, exactly one of the two.\<close>

datatype response =
    Result py_value py_value
  | Error py_value int string

definition rpc_response :: "py_value \<Rightarrow> py_value \<Rightarrow> response" where
  "rpc_response message_id content = Result message_id content"

definition rpc_error :: "py_value \<Rightarrow> int \<Rightarrow> string \<Rightarrow> response" where
  "rpc_error message_id code message = Error message_id code message"

fun response_id :: "response \<Rightarrow> py_value" where
  "response_id (Result i _) = i"
| "response_id (Error i _ _) = i"

section \<open>The dispatcher\<close>

text \<open>The \<^verbatim>\<open>try\<close> block of \<^verbatim>\<open>parse_body\<close>: the three reads, in the order of the source.\<close>

definition parse_body_try :: "py_value \<Rightarrow> exn + (string \<times> py_value \<times> py_value)" where
  "parse_body_try body =
     (case getitem body ''method'' of
        Inl e \<Rightarrow> Inl e
      | Inr m \<Rightarrow>
          (case method_replace m of
             Inl e \<Rightarrow> Inl e
           | Inr method_name \<Rightarrow>
               (case dict_get body ''params'' of
                  Inl e \<Rightarrow> Inl e
                | Inr p \<Rightarrow>
                    (let params = (if truthy p then p else PyDict []) in
                     case getitem body ''id'' of
                       Inl e \<Rightarrow> Inl e
                     | Inr message_id \<Rightarrow> Inr (method_name, params, message_id)))))"

text \<open>\<^verbatim>\<open>except RuntimeError\<close>: the clause matches instances of \<^verbatim>\<open>RuntimeError\<close>.\<close>

fun is_RuntimeError :: "exn \<Rightarrow> bool" where
  "is_RuntimeError (RuntimeError _) = True"
| "is_RuntimeError _ = False"

text \<open>The classes of the exceptions that the three reads can raise: \<^verbatim>\<open>KeyError\<close> for a
  missing key, \<^verbatim>\<open>TypeError\<close> for a body that is no dict, \<^verbatim>\<open>AttributeError\<close> for a method
  that is no string.\<close>

fun lookup_error :: "exn \<Rightarrow> bool" where
  "lookup_error (KeyError _) = True"
| "lookup_error (TypeError _) = True"
| "lookup_error (AttributeError _) = True"
| "lookup_error _ = False"

text \<open>\<^verbatim>\<open>isinstance(params, (List, Dict))\<close>\<close>

fun is_list_or_dict :: "py_value \<Rightarrow> bool" where
  "is_list_or_dict (PyList _) = True"
| "is_list_or_dict (PyDict _) = True"
| "is_list_or_dict _ = False"

definition parse_body :: "handlers \<Rightarrow> py_value \<Rightarrow> exn + (handler \<times> py_value \<times> py_value)" where
  "parse_body hs body =
     (case parse_body_try body of
        Inl error \<Rightarrow>
          (if is_RuntimeError error
           then Inl (RpcError (RpcErrorCode_value INVALID_REQUEST) ''Invalid request'')
           else Inl error)
      | Inr (method_name, params, message_id) \<Rightarrow>
          (case map_of (methods hs) method_name of
             None \<Rightarrow> Inl (RpcError (RpcErrorCode_value METHOD_NOT_FOUND) ''Method not found'')
           | Some method \<Rightarrow>
               (if \<not> is_list_or_dict params
                then Inl (RpcError (RpcErrorCode_value INVALID_PARAMS) ''Invalid params'')
                else Inr (method, params, message_id))))"

text \<open>\<^verbatim>\<open>method( *params) if isinstance(params, list) else method( **params)\<close>. The last
  equation is the \<^verbatim>\<open>TypeError\<close> of \<^verbatim>\<open>**\<close> on an object that is no mapping; after
  \<open>parse_body\<close> it is out of reach.\<close>

fun call_method :: "handler \<Rightarrow> py_value \<Rightarrow> exn + py_value" where
  "call_method method (PyList args) = method args []"
| "call_method method (PyDict kwargs) = method [] kwargs"
| "call_method method v =
     Inl (TypeError (''argument after ** must be a mapping, not '' @ type_name v))"

text \<open>The two \<^verbatim>\<open>except\<close> clauses of \<^verbatim>\<open>base_route\<close>, with the value \<open>message_id\<close> has when
  the exception arrives. Any other exception leaves the function (\<open>Inl\<close>).\<close>

fun base_route_except :: "py_value \<Rightarrow> exn \<Rightarrow> exn + response" where
  "base_route_except message_id (TypeError type_error) =
     Inr (rpc_error message_id 22 type_error)"
| "base_route_except message_id (RpcError code message) =
     Inr (rpc_error message_id code message)"
| "base_route_except message_id e = Inl e"

text \<open>\<open>message_id\<close> is \<^verbatim>\<open>None\<close> until the assignment from \<open>parse_body\<close> has happened: an
  exception raised inside \<open>parse_body\<close> finds it still \<^verbatim>\<open>None\<close>.\<close>

definition base_route :: "handlers \<Rightarrow> py_value \<Rightarrow> exn + response" where
  "base_route hs request_json =
     (case parse_body hs request_json of
        Inl e \<Rightarrow> base_route_except PyNone e
      | Inr (method, params, message_id) \<Rightarrow>
          (case call_method method params of
             Inl e \<Rightarrow> base_route_except message_id e
           | Inr result \<Rightarrow> Inr (rpc_response message_id result)))"

section \<open>The process-wide error handler\<close>

text \<open>\<^verbatim>\<open>handle\<close> of \<^verbatim>\<open>server.py\<close> reads the message and the status code of the error and
  returns the body and the HTTP status.\<close>

definition handle :: "string \<Rightarrow> int \<Rightarrow> py_value \<times> int" where
  "handle message status_code =
     (PyDict [(''message'', PyStr message), (''status_code'', PyInt status_code)], status_code)"

text \<open>What a POST to the endpoint produces: the envelope that \<open>base_route\<close> returns; or,
  for an escaped \<^verbatim>\<open>StarkException\<close>, what \<open>handle\<close> returns (it is registered with
  \<^verbatim>\<open>app.errorhandler(StarkException)\<close> and for no other class); or the exception itself,
  left to the web framework.\<close>

datatype http_outcome =
    Envelope response
  | Fallback py_value int
  | Unhandled exn

definition rpc_endpoint :: "handlers \<Rightarrow> py_value \<Rightarrow> http_outcome" where
  "rpc_endpoint hs request_json =
     (case base_route hs request_json of
        Inr r \<Rightarrow> Envelope r
      | Inl (StarkException message status_code) \<Rightarrow>
          (case handle message status_code of (body, status) \<Rightarrow> Fallback body status)
      | Inl e \<Rightarrow> Unhandled e)"

section \<open>Origins\<close>

text \<open>The exceptions \<^verbatim>\<open>origin.py\<close> raises.\<close>

datatype origin_exn =
    StarknetDevnetException string
  | NotImplementedError

text \<open>\<^verbatim>\<open>hex(n)\<close> and \<^verbatim>\<open>str(n)\<close> of an int.\<close>

definition digit_char :: "nat \<Rightarrow> char" where
  "digit_char d = ''0123456789abcdef'' ! d"

fun digits :: "nat \<Rightarrow> nat \<Rightarrow> string" where
  "digits b n =
     (if b < 2 \<or> n < b then [digit_char n] else digits b (n div b) @ [digit_char (n mod b)])"

declare digits.simps [simp del]

definition hex :: "int \<Rightarrow> string" where
  "hex n = (if n < 0 then ''-0x'' @ digits 16 (nat (- n)) else ''0x'' @ digits 16 (nat n))"

definition str_int :: "int \<Rightarrow> string" where
  "str_int n = (if n < 0 then ''-'' @ digits 10 (nat (- n)) else digits 10 (nat n))"

subsection \<open>NullOrigin\<close>

definition NullOrigin_get_storage_at :: "int \<Rightarrow> int \<Rightarrow> string" where
  "NullOrigin_get_storage_at contract_address key = hex 0"

definition NullOrigin_get_number_of_blocks :: int where
  "NullOrigin_get_number_of_blocks = 0"

text \<open>\<^verbatim>\<open>if block_hash:\<close> tests the truth value of the argument: \<^verbatim>\<open>None\<close> and the empty
  string both fail it. \<^verbatim>\<open>block_number\<close> (here \<open>block_num\<close>, the name being taken by a
  handler) is compared with \<^verbatim>\<open>None\<close>. A call that raises nothing falls off the end of
  the function and returns \<^verbatim>\<open>None\<close>.\<close>

definition NullOrigin_get_state_update ::
  "string option \<Rightarrow> int option \<Rightarrow> origin_exn + py_value" where
  "NullOrigin_get_state_update block_hash block_num =
     (if block_hash \<noteq> None \<and> block_hash \<noteq> Some []
      then Inl (StarknetDevnetException
                  (''No state updates saved for the provided block hash '' @ the block_hash))
      else if block_num \<noteq> None
      then Inl (StarknetDevnetException
                  (''No state updates saved for the provided block number ''
                     @ str_int (the block_num)))
      else Inr PyNone)"

subsection \<open>ForkedOrigin\<close>

record ForkedOrigin =
  url :: string
  number_of_blocks :: py_value

definition ForkedOrigin_init :: "string \<Rightarrow> ForkedOrigin" where
  "ForkedOrigin_init u = \<lparr>url = u, number_of_blocks = PyEllipsis\<rparr>"

text \<open>The methods of the class, as calls on an object: each returns its outcome and the
  object after the call. No method assigns to a field.\<close>

datatype origin_call =
    Get_transaction_status string
  | Get_transaction string
  | Get_transaction_receipt string
  | Get_transaction_trace string
  | Get_block_by_hash string
  | Get_block_by_number int
  | Get_code int
  | Get_full_contract int
  | Get_class_by_hash int
  | Get_class_hash_at int
  | Get_storage_at int int
  | Get_number_of_blocks
  | Get_state_update "string option" "int option"

fun ForkedOrigin_call ::
  "ForkedOrigin \<Rightarrow> origin_call \<Rightarrow> (origin_exn + py_value) \<times> ForkedOrigin" where
  "ForkedOrigin_call self Get_number_of_blocks = (Inr (number_of_blocks self), self)"
| "ForkedOrigin_call self c = (Inl NotImplementedError, self)"

definition ForkedOrigin_get_number_of_blocks :: "ForkedOrigin \<Rightarrow> origin_exn + py_value" where
  "ForkedOrigin_get_number_of_blocks self = fst (ForkedOrigin_call self Get_number_of_blocks)"

text \<open>The object after a sequence of calls.\<close>

fun ForkedOrigin_calls :: "ForkedOrigin \<Rightarrow> origin_call list \<Rightarrow> ForkedOrigin" where
  "ForkedOrigin_calls self [] = self"
| "ForkedOrigin_calls self (c # cs) = ForkedOrigin_calls (snd (ForkedOrigin_call self c)) cs"

text \<open>A block count is an int that is not negative.\<close>

definition is_block_count :: "py_value \<Rightarrow> bool" where
  "is_block_count v = (case v of PyInt n \<Rightarrow> 0 \<le> n | _ \<Rightarrow> False)"

section \<open>Sample handlers and requests\<close>

text \<open>Concrete handlers, for evaluating the dispatcher. \<open>example_chain_id\<close> takes no
  parameter, so that any argument is a binding failure; \<open>example_echo\<close> takes
  \<^verbatim>\<open>*args, **kwargs\<close> and returns both; the other three raise an exception,
  whatever the arguments.\<close>

definition example_chain_id :: handler where
  "example_chain_id args kwargs =
     (if args = [] \<and> kwargs = [] then Inr (PyStr ''0x534e5f474f45524c49'')
      else Inl (TypeError ''chain_id() takes 0 positional arguments but 1 was given''))"

definition example_echo :: handler where
  "example_echo args kwargs = Inr (PyList [PyList args, PyDict kwargs])"

definition example_get_class :: handler where
  "example_get_class args kwargs = Inl (RpcError 28 ''Class hash not found'')"

definition example_block_number :: handler where
  "example_block_number args kwargs =
     Inl (StarkException ''Requested the latest block, but there are no blocks so far.'' 500)"

definition example_get_nonce :: handler where
  "example_get_nonce args kwargs = Inl (OtherException ''ValueError'')"

definition example_handlers :: handlers where
  "example_handlers =
     \<lparr>get_block_with_tx_hashes = example_echo,
      get_block_with_txs = example_echo,
      get_state_update = example_echo,
      get_storage_at = example_echo,
      get_transaction_by_hash = example_echo,
      get_transaction_by_block_id_and_index = example_echo,
      get_transaction_receipt = example_echo,
      get_class = example_get_class,
      get_class_hash_at = example_echo,
      get_class_at = example_echo,
      get_block_transaction_count = example_echo,
      call = example_echo,
      estimate_fee = example_echo,
      block_number = example_block_number,
      block_hash_and_number = example_echo,
      chain_id = example_chain_id,
      pending_transactions = example_echo,
      syncing = example_echo,
      get_events = example_echo,
      get_nonce = example_get_nonce,
      add_invoke_transaction = example_echo,
      add_declare_transaction = example_echo,
      add_deploy_transaction = example_echo\<rparr>"

text \<open>The request \<open>{"method": m, "params": p, "id": i}\<close>.\<close>

definition request :: "string \<Rightarrow> py_value \<Rightarrow> py_value \<Rightarrow> py_value" where
  "request m p i = PyDict [(''method'', PyStr m), (''params'', p), (''id'', i)]"

text \<open>An error envelope with the given code and message, whatever its id.\<close>

fun is_error_response :: "int \<Rightarrow> string \<Rightarrow> exn + response \<Rightarrow> bool" where
  "is_error_response c m (Inr (Error i c' m')) = (c' = c \<and> m' = m)"
| "is_error_response c m r = False"

section \<open>Origins: properties\<close>

lemma digits_less: "2 \<le> b \<Longrightarrow> n < b \<Longrightarrow> digits b n = [digit_char n]"
  by (subst digits.simps) simp

lemma hex_0: "hex 0 = ''0x0''"
  by (simp add: hex_def digits_less digit_char_def)

text \<open>
  C9. For every contract address and every storage key, \<open>NullOrigin.get_storage_at\<close>
  returns the zero value \<open>"0x0"\<close>.
\<close>

theorem NullOrigin_get_storage_at_zero:
  "NullOrigin_get_storage_at contract_address key = ''0x0''"
  by (simp add: NullOrigin_get_storage_at_def hex_0)

lemma ForkedOrigin_call_self: "snd (ForkedOrigin_call self c) = self"
  by (cases c) simp_all

lemma ForkedOrigin_calls_self: "ForkedOrigin_calls self cs = self"
  by (induction cs arbitrary: self) (simp_all add: ForkedOrigin_call_self)

text \<open>
  C8, as stated: \<open>get_number_of_blocks\<close> of a ForkedOrigin returns the block count cached
  at construction time. It returns no block count: \<^verbatim>\<open>__init__\<close> stores the placeholder
  \<^verbatim>\<open>...\<close> in \<open>number_of_blocks\<close> and reads nothing from the endpoint.
\<close>

theorem ForkedOrigin_get_number_of_blocks_counterexample:
  "ForkedOrigin_get_number_of_blocks (ForkedOrigin_init ''https://alpha4.starknet.io'')
     = Inr PyEllipsis
   \<and> \<not> is_block_count PyEllipsis"
  by (simp add: ForkedOrigin_get_number_of_blocks_def ForkedOrigin_init_def is_block_count_def)

text \<open>
  C8, amended. For every ForkedOrigin constructed from a remote endpoint,
  \<open>get_number_of_blocks\<close> returns exactly the value that \<^verbatim>\<open>__init__\<close> stored in
  \<open>number_of_blocks\<close>, which is the placeholder \<^verbatim>\<open>...\<close> (Ellipsis) whatever the endpoint,
  and after any sequence of calls of the object's methods it returns that same value.
\<close>

theorem ForkedOrigin_get_number_of_blocks_placeholder:
  "ForkedOrigin_get_number_of_blocks (ForkedOrigin_calls (ForkedOrigin_init u) cs)
     = Inr (number_of_blocks (ForkedOrigin_init u))
   \<and> number_of_blocks (ForkedOrigin_init u) = PyEllipsis
   \<and> ForkedOrigin_get_number_of_blocks (ForkedOrigin_calls (ForkedOrigin_init u) cs)
     = Inr PyEllipsis"
  by (simp add: ForkedOrigin_calls_self ForkedOrigin_get_number_of_blocks_def
      ForkedOrigin_init_def)

lemma str_int_5: "str_int 5 = ''5''"
  by (simp add: str_int_def digits_less digit_char_def)

text \<open>
  C7, as stated: whenever a block number is requested, the call fails with an error whose
  message names that block number. It does not: with a block hash given as well, the hash
  is tested first and the message names the hash only.
\<close>

theorem NullOrigin_get_state_update_number_counterexample:
  "NullOrigin_get_state_update (Some ''0x1'') (Some 5)
     = Inl (StarknetDevnetException ''No state updates saved for the provided block hash 0x1'')
   \<and> \<not> sublist (str_int 5) ''No state updates saved for the provided block hash 0x1''"
  by (simp add: NullOrigin_get_state_update_def str_int_5 sublist_Cons_right)

text \<open>
  C7, amended. For every call to \<open>NullOrigin.get_state_update\<close>: if a non-empty block hash
  is requested it fails with a \<open>StarknetDevnetException\<close> whose message ends in that block
  hash, whatever block number comes with it; otherwise (no block hash, or an empty one), if
  a block number is requested it fails with a \<open>StarknetDevnetException\<close> whose message ends
  in that block number, and if no block number is requested it returns \<^verbatim>\<open>None\<close> without
  raising.
\<close>

theorem NullOrigin_get_state_update_cases:
  "(h \<noteq> [] \<longrightarrow>
      NullOrigin_get_state_update (Some h) bn
        = Inl (StarknetDevnetException
                 (''No state updates saved for the provided block hash '' @ h)))
   \<and> (bh = None \<or> bh = Some [] \<longrightarrow>
        NullOrigin_get_state_update bh (Some n)
          = Inl (StarknetDevnetException
                   (''No state updates saved for the provided block number '' @ str_int n))
        \<and> NullOrigin_get_state_update bh None = Inr PyNone)"
  by (auto simp: NullOrigin_get_state_update_def)

theorem NullOrigin_get_state_update_cases_witness:
  "NullOrigin_get_state_update (Some ''0x1'') (Some 5)
     = Inl (StarknetDevnetException ''No state updates saved for the provided block hash 0x1'')
   \<and> NullOrigin_get_state_update None (Some 5)
     = Inl (StarknetDevnetException ''No state updates saved for the provided block number 5'')
   \<and> NullOrigin_get_state_update None None = Inr PyNone"
  using NullOrigin_get_state_update_cases [of "''0x1''" "Some 5" None 5]
  by (simp add: str_int_5)

section \<open>The dispatcher: evaluation lemmas\<close>

lemma replace_Nil: "old \<noteq> [] \<Longrightarrow> replace old new [] = []"
  by (simp add: replace.simps)

lemma replace_prefix:
  "old \<noteq> [] \<Longrightarrow> prefix old s \<Longrightarrow>
   replace old new s = new @ replace old new (drop (length old) s)"
  by (subst replace.simps) simp

lemma replace_Cons:
  "old \<noteq> [] \<Longrightarrow> \<not> prefix old (c # cs) \<Longrightarrow>
   replace old new (c # cs) = c # replace old new cs"
  by (subst replace.simps) simp

lemmas replace_eval = replace_Nil replace_prefix replace_Cons

lemma method_names: "map fst (methods hs) =
  [''getBlockWithTxHashes'', ''getBlockWithTxs'', ''getStateUpdate'', ''getStorageAt'',
   ''getTransactionByHash'', ''getTransactionByBlockIdAndIndex'', ''getTransactionReceipt'',
   ''getClass'', ''getClassHashAt'', ''getClassAt'', ''getBlockTransactionCount'', ''call'',
   ''estimateFee'', ''blockNumber'', ''blockHashAndNumber'', ''chainId'',
   ''pendingTransactions'', ''syncing'', ''getEvents'', ''getNonce'', ''addInvokeTransaction'',
   ''addDeclareTransaction'', ''addDeployTransaction'']"
  by (simp add: methods_def)

lemma parse_body_try_dict:
  "parse_body_try (PyDict kvs) =
     (case map_of kvs ''method'' of
        None \<Rightarrow> Inl (KeyError ''method'')
      | Some mv \<Rightarrow>
          (case method_replace mv of
             Inl e \<Rightarrow> Inl e
           | Inr method_name \<Rightarrow>
               (case map_of kvs ''id'' of
                  None \<Rightarrow> Inl (KeyError ''id'')
                | Some i \<Rightarrow>
                    Inr (method_name,
                         (case map_of kvs ''params'' of
                            None \<Rightarrow> PyDict []
                          | Some p \<Rightarrow> if truthy p then p else PyDict []),
                         i))))"
  by (simp add: parse_body_try_def Let_def split: option.splits sum.splits)

lemma method_replace_error: "method_replace v = Inl e \<Longrightarrow> lookup_error e"
  by (cases v) auto

lemma getitem_error: "getitem v k = Inl e \<Longrightarrow> lookup_error e"
  by (cases v) (auto split: option.splits)

lemma dict_get_error: "dict_get v k = Inl e \<Longrightarrow> lookup_error e"
  by (cases v) (auto split: option.splits)

lemma parse_body_try_error: "parse_body_try body = Inl e \<Longrightarrow> lookup_error e"
  by (auto simp: parse_body_try_def Let_def split: sum.splits
      dest: method_replace_error getitem_error dict_get_error)

text \<open>No exception of the \<^verbatim>\<open>try\<close> block is a \<^verbatim>\<open>RuntimeError\<close>, so the clause that raises
  \<open>INVALID_REQUEST\<close> never runs: \<open>parse_body\<close> raises that error for no body.\<close>

lemma parse_body_never_invalid_request:
  "parse_body hs body \<noteq> Inl (RpcError (RpcErrorCode_value INVALID_REQUEST) msg)"
proof (cases "parse_body_try body")
  case (Inl e)
  then have "lookup_error e" by (rule parse_body_try_error)
  with Inl show ?thesis by (cases e) (simp_all add: parse_body_def)
next
  case (Inr t)
  then show ?thesis
    by (cases t) (simp add: parse_body_def split: option.splits)
qed

lemma parse_body_not_found:
  assumes "map_of kvs ''method'' = Some (PyStr m)"
    and "map_of kvs ''id'' = Some i"
    and "map_of (methods hs) (replace ''starknet_'' '''' m) = None"
  shows "parse_body hs (PyDict kvs)
           = Inl (RpcError (RpcErrorCode_value METHOD_NOT_FOUND) ''Method not found'')"
  using assms by (simp add: parse_body_def parse_body_try_dict)

lemma parse_body_found:
  assumes "map_of kvs ''method'' = Some (PyStr m)"
    and "map_of kvs ''id'' = Some i"
    and "map_of (methods hs) (replace ''starknet_'' '''' m) = Some h"
  shows "parse_body hs (PyDict kvs) =
     (case map_of kvs ''params'' of
        None \<Rightarrow> Inr (h, PyDict [], i)
      | Some p \<Rightarrow>
          if \<not> truthy p then Inr (h, PyDict [], i)
          else if is_list_or_dict p then Inr (h, p, i)
          else Inl (RpcError (RpcErrorCode_value INVALID_PARAMS) ''Invalid params''))"
  using assms by (simp add: parse_body_def parse_body_try_dict split: option.splits)

text \<open>When \<open>parse_body\<close> returns, the id it returns is the request's, and every envelope
  that \<open>base_route\<close> then builds carries it.\<close>

lemma parse_body_id:
  "parse_body hs body = Inr (method, params, message_id) \<Longrightarrow>
   getitem body ''id'' = Inr message_id"
  by (auto simp: parse_body_def parse_body_try_def Let_def
      split: sum.splits option.splits if_splits)

lemma base_route_id:
  "parse_body hs body = Inr (method, params, message_id) \<Longrightarrow> base_route hs body = Inr r
     \<Longrightarrow> response_id r = message_id"
  by (cases "call_method method params"; cases "projl (call_method method params)")
     (auto simp: base_route_def rpc_error_def rpc_response_def)

subsection \<open>The sample requests\<close>

lemma parse_body_request_not_found:
  "map_of (methods hs) (replace ''starknet_'' '''' m) = None \<Longrightarrow>
   parse_body hs (request m p i)
     = Inl (RpcError (RpcErrorCode_value METHOD_NOT_FOUND) ''Method not found'')"
  unfolding request_def by (rule parse_body_not_found) simp_all

lemma parse_body_request_found:
  "map_of (methods hs) (replace ''starknet_'' '''' m) = Some h \<Longrightarrow>
   parse_body hs (request m p i) =
     (if \<not> truthy p then Inr (h, PyDict [], i)
      else if is_list_or_dict p then Inr (h, p, i)
      else Inl (RpcError (RpcErrorCode_value INVALID_PARAMS) ''Invalid params''))"
  unfolding request_def
  by (subst parse_body_found [where m = m and i = i and h = h]) simp_all

lemma name_doesNotExist:
  "replace ''starknet_'' '''' ''starknet_doesNotExist'' = ''doesNotExist''"
  by (simp add: replace_eval)

lemma name_getClass: "replace ''starknet_'' '''' ''starknet_getClass'' = ''getClass''"
  by (simp add: replace_eval)

lemma name_chainId: "replace ''starknet_'' '''' ''starknet_chainId'' = ''chainId''"
  by (simp add: replace_eval)

lemma name_blockNumber: "replace ''starknet_'' '''' ''starknet_blockNumber'' = ''blockNumber''"
  by (simp add: replace_eval)

lemma name_getNonce: "replace ''starknet_'' '''' ''starknet_getNonce'' = ''getNonce''"
  by (simp add: replace_eval)

lemma parse_doesNotExist:
  "parse_body hs (request ''starknet_doesNotExist'' p i)
     = Inl (RpcError (- 32601) ''Method not found'')"
  using parse_body_request_not_found [of hs "''starknet_doesNotExist''" p i]
  by (simp add: name_doesNotExist methods_def)

lemma parse_getClass:
  "parse_body example_handlers (request ''starknet_getClass'' (PyList (x # xs)) i)
     = Inr (example_get_class, PyList (x # xs), i)"
  using parse_body_request_found [of example_handlers "''starknet_getClass''" example_get_class]
  by (simp add: name_getClass methods_def example_handlers_def)

lemma parse_chainId:
  "parse_body example_handlers (request ''starknet_chainId'' p i) =
     (if \<not> truthy p then Inr (example_chain_id, PyDict [], i)
      else if is_list_or_dict p then Inr (example_chain_id, p, i)
      else Inl (RpcError (- 32602) ''Invalid params''))"
  using parse_body_request_found [of example_handlers "''starknet_chainId''" example_chain_id p i]
  by (simp add: name_chainId methods_def example_handlers_def)

lemma parse_blockNumber:
  "parse_body example_handlers (request ''starknet_blockNumber'' (PyList []) i)
     = Inr (example_block_number, PyDict [], i)"
  using parse_body_request_found
    [of example_handlers "''starknet_blockNumber''" example_block_number]
  by (simp add: name_blockNumber methods_def example_handlers_def)

lemma parse_getNonce:
  "parse_body example_handlers (request ''starknet_getNonce'' (PyList []) i)
     = Inr (example_get_nonce, PyDict [], i)"
  using parse_body_request_found [of example_handlers "''starknet_getNonce''" example_get_nonce]
  by (simp add: name_getNonce methods_def example_handlers_def)

section \<open>The dispatcher: properties\<close>

text \<open>
  C1. For every request handled by the dispatcher, the id of the response envelope
  (whether a result or an error response) equals the id field of the request.
  The code at the request \<open>{"method": "starknet_doesNotExist", "params": [], "id": 2}\<close>:
  the error raised inside \<open>parse_body\<close> is answered with the id \<^verbatim>\<open>None\<close>, not with 2. An
  error raised by a handler, the second request, is answered with the id of its request.
\<close>

theorem base_route_parse_error_id_null:
  "base_route example_handlers (request ''starknet_doesNotExist'' (PyList []) (PyInt 2))
     = Inr (Error PyNone (- 32601) ''Method not found'')
   \<and> base_route example_handlers
       (request ''starknet_getClass'' (PyList [PyStr ''0x1'']) (PyInt 2))
     = Inr (Error (PyInt 2) 28 ''Class hash not found'')"
  by (simp add: base_route_def parse_doesNotExist parse_getClass example_get_class_def
      rpc_error_def)

text \<open>
  C2. For every request body that lacks the method field or lacks the id field, and for
  every request body that is not an object at all, the dispatcher returns a response whose
  error code is InvalidRequest.
  The code at three such bodies: without the id and without the method a \<^verbatim>\<open>KeyError\<close>
  leaves the dispatcher, and a body that is a list is answered with the code 22.
\<close>

theorem base_route_malformed_request_not_invalid_request:
  "base_route example_handlers
      (PyDict [(''method'', PyStr ''starknet_chainId''), (''params'', PyList [])])
     = Inl (KeyError ''id'')
   \<and> base_route example_handlers (PyDict [(''params'', PyList []), (''id'', PyInt 1)])
     = Inl (KeyError ''method'')
   \<and> base_route example_handlers (PyList [])
     = Inr (Error PyNone 22 ''list indices must be integers or slices, not str'')"
  by (simp add: base_route_def parse_body_def parse_body_try_def rpc_error_def)

text \<open>
  C3, as stated: every exception that is neither an \<open>RpcError\<close> nor a \<open>TypeError\<close> escapes
  to the process-wide fallback, which renders \<open>{message, status_code}\<close>. It does not for a
  \<^verbatim>\<open>ValueError\<close> raised by a handler: the fallback is registered for \<open>StarkException\<close>
  only, and the exception is left to the web framework.
\<close>

theorem rpc_endpoint_fallback_counterexample:
  "rpc_endpoint example_handlers (request ''starknet_getNonce'' (PyList []) (PyInt 1))
     = Unhandled (OtherException ''ValueError'')"
  by (simp add: rpc_endpoint_def base_route_def parse_getNonce example_get_nonce_def)

text \<open>
  C3, amended. If the invoked handler raises an \<open>RpcError\<close>, the dispatcher returns an
  error response carrying that error's code and message unchanged. Any exception that is
  neither an \<open>RpcError\<close> nor a \<open>TypeError\<close> is not caught by the dispatcher and leaves it.
  If it is a \<open>StarkException\<close>, the process-wide fallback renders the bare object
  \<open>{message, status_code}\<close> with the exception's status code as HTTP status; any other
  exception is not rendered by the fallback.
\<close>

theorem base_route_handler_exceptions:
  assumes "parse_body hs body = Inr (method, params, message_id)"
  shows "(call_method method params = Inl (RpcError code message) \<longrightarrow>
            base_route hs body = Inr (rpc_error message_id code message))
       \<and> (call_method method params = Inl e
            \<and> (\<forall>m. e \<noteq> TypeError m) \<and> (\<forall>c m. e \<noteq> RpcError c m) \<longrightarrow>
            base_route hs body = Inl e)
       \<and> (call_method method params = Inl (StarkException message status) \<longrightarrow>
            rpc_endpoint hs body
              = Fallback (PyDict [(''message'', PyStr message),
                                  (''status_code'', PyInt status)]) status)
       \<and> (call_method method params = Inl e
            \<and> (\<forall>m. e \<noteq> TypeError m) \<and> (\<forall>c m. e \<noteq> RpcError c m)
            \<and> (\<forall>m s. e \<noteq> StarkException m s) \<longrightarrow>
            rpc_endpoint hs body = Unhandled e)"
proof -
  have other: "base_route_except message_id e = Inl e"
    if "\<forall>m. e \<noteq> TypeError m" "\<forall>c m. e \<noteq> RpcError c m"
    using that by (cases e) simp_all
  show ?thesis
    using assms other
    by (cases e) (auto simp: base_route_def rpc_endpoint_def handle_def)
qed

theorem base_route_handler_exceptions_witness:
  "base_route example_handlers (request ''starknet_getClass'' (PyList [PyStr ''0x1'']) (PyInt 1))
     = Inr (rpc_error (PyInt 1) 28 ''Class hash not found'')
   \<and> base_route example_handlers (request ''starknet_getNonce'' (PyList []) (PyInt 1))
     = Inl (OtherException ''ValueError'')
   \<and> rpc_endpoint example_handlers (request ''starknet_blockNumber'' (PyList []) (PyInt 1))
     = Fallback (PyDict [(''message'',
                          PyStr ''Requested the latest block, but there are no blocks so far.''),
                         (''status_code'', PyInt 500)]) 500"
  using base_route_handler_exceptions
      [OF parse_getClass, where code = 28 and message = "''Class hash not found''"]
    base_route_handler_exceptions
      [OF parse_getNonce, where e = "OtherException ''ValueError''"]
    base_route_handler_exceptions
      [OF parse_blockNumber,
        where message = "''Requested the latest block, but there are no blocks so far.''"
          and status = 500]
  by (simp add: example_get_class_def example_get_nonce_def example_block_number_def)

text \<open>
  C5. For every request that resolves to a registered handler, a parameter-binding failure
  at invocation time (the \<^verbatim>\<open>TypeError\<close> of the call) yields an error response with the
  literal code 22, the description of the failure as its message and the id of the
  request; the code 22 differs from the code of the \<open>INVALID_PARAMS\<close> check.
\<close>

theorem base_route_binding_failure:
  assumes "parse_body hs body = Inr (method, params, message_id)"
    and "call_method method params = Inl (TypeError type_error)"
  shows "base_route hs body = Inr (rpc_error message_id 22 type_error)
       \<and> getitem body ''id'' = Inr message_id
       \<and> RpcErrorCode_value INVALID_PARAMS \<noteq> 22"
  using assms by (simp add: base_route_def parse_body_id)

theorem base_route_binding_failure_witness:
  "base_route example_handlers (request ''starknet_chainId'' (PyList [PyInt 1]) (PyInt 7))
     = Inr (Error (PyInt 7) 22 ''chain_id() takes 0 positional arguments but 1 was given'')"
  using base_route_binding_failure
      [of example_handlers "request ''starknet_chainId'' (PyList [PyInt 1]) (PyInt 7)"
        example_chain_id "PyList [PyInt 1]" "PyInt 7"
        "''chain_id() takes 0 positional arguments but 1 was given''"]
  by (simp add: parse_chainId example_chain_id_def rpc_error_def)

text \<open>
  How \<open>base_route\<close> treats the params of a request that is an object with an id and a
  method naming a registered handler: an array is bound positionally (the handler is called
  with the array's elements and no keyword argument); an object is bound by name (the
  handler is called with the object's entries as keyword arguments); a value that counts
  as true and is neither an array nor an object is answered with InvalidParams; an absent
  or null params field becomes the empty mapping.
\<close>

lemma base_route_params_binding:
  assumes "map_of kvs ''method'' = Some (PyStr m)"
    and "map_of (methods hs) (replace ''starknet_'' '''' m) = Some h"
    and "map_of kvs ''id'' = Some i"
  shows "(map_of kvs ''params'' = Some (PyList args) \<longrightarrow>
            (\<exists>params. parse_body hs (PyDict kvs) = Inr (h, params, i)
                     \<and> call_method h params = h args [])
            \<and> base_route hs (PyDict kvs)
                = (case h args [] of Inl e \<Rightarrow> base_route_except i e
                                   | Inr result \<Rightarrow> Inr (rpc_response i result)))
       \<and> (map_of kvs ''params'' = Some (PyDict kwargs) \<longrightarrow>
            (\<exists>params. parse_body hs (PyDict kvs) = Inr (h, params, i)
                     \<and> call_method h params = h [] kwargs)
            \<and> base_route hs (PyDict kvs)
                = (case h [] kwargs of Inl e \<Rightarrow> base_route_except i e
                                     | Inr result \<Rightarrow> Inr (rpc_response i result)))
       \<and> (map_of kvs ''params'' = Some p \<and> truthy p \<and> \<not> is_list_or_dict p \<longrightarrow>
            parse_body hs (PyDict kvs)
              = Inl (RpcError (RpcErrorCode_value INVALID_PARAMS) ''Invalid params'')
            \<and> is_error_response (RpcErrorCode_value INVALID_PARAMS) ''Invalid params''
                 (base_route hs (PyDict kvs)))
       \<and> (map_of kvs ''params'' = None \<or> map_of kvs ''params'' = Some PyNone \<longrightarrow>
            parse_body hs (PyDict kvs) = Inr (h, PyDict [], i))"
proof -
  note pb = parse_body_found [OF assms(1) assms(3) assms(2)]
  have a: ?thesis if "map_of kvs ''params'' = None"
    using that pb by simp
  have b: ?thesis if "map_of kvs ''params'' = Some q" for q
  proof (cases q)
    case (PyList xs)
    with that pb show ?thesis by (cases xs) (auto simp: base_route_def)
  next
    case (PyDict d)
    with that pb show ?thesis by (cases d) (auto simp: base_route_def)
  qed (use that pb in \<open>auto simp: base_route_def rpc_error_def\<close>)
  from a b show ?thesis by (cases "map_of kvs ''params''") blast+
qed

text \<open>A params value that counts as false is replaced by the empty mapping before its
  shape is looked at, whatever its type.\<close>

lemma parse_body_falsy_params:
  assumes "map_of kvs ''method'' = Some (PyStr m)"
    and "map_of (methods hs) (replace ''starknet_'' '''' m) = Some h"
    and "map_of kvs ''id'' = Some i"
    and "map_of kvs ''params'' = Some p"
    and "\<not> truthy p"
  shows "parse_body hs (PyDict kvs) = Inr (h, PyDict [], i)"
  using parse_body_found [OF assms(1) assms(3) assms(2)] assms(4,5) by simp

text \<open>
  C4. For every request, a params field given as an array is bound positionally, one given
  as an object is bound by name, one of any other shape (string, number or bool) yields an
  InvalidParams error response, and an absent or null one normalizes to an empty mapping.
  The code at the requests \<open>{"method": "starknet_chainId", "params": p, "id": 1}\<close> with
  \<open>p\<close> the number 0, \<^verbatim>\<open>false\<close> and the empty string: \<^verbatim>\<open>body.get("params") or {}\<close> has
  replaced each by the empty mapping before the \<^verbatim>\<open>isinstance\<close> check, and the handler is
  called and its result returned. The number 5 is answered with InvalidParams.
\<close>

theorem base_route_falsy_params_not_invalid_params:
  "base_route example_handlers (request ''starknet_chainId'' (PyInt 0) (PyInt 1))
     = Inr (Result (PyInt 1) (PyStr ''0x534e5f474f45524c49''))
   \<and> base_route example_handlers (request ''starknet_chainId'' (PyBool False) (PyInt 1))
     = Inr (Result (PyInt 1) (PyStr ''0x534e5f474f45524c49''))
   \<and> base_route example_handlers (request ''starknet_chainId'' (PyStr '''') (PyInt 1))
     = Inr (Result (PyInt 1) (PyStr ''0x534e5f474f45524c49''))
   \<and> base_route example_handlers (request ''starknet_chainId'' (PyInt 5) (PyInt 1))
     = Inr (Error PyNone (RpcErrorCode_value INVALID_PARAMS) ''Invalid params'')"
  by (simp add: base_route_def parse_chainId example_chain_id_def rpc_error_def
      rpc_response_def)

text \<open>
  C6, as stated: there are 22 registered names, and a request whose method is none of them
  is answered with MethodNotFound and the id of the request when it has one, else null.
  The registry has 23 names, all different; the answer to a request with the id 6 carries
  the id \<^verbatim>\<open>None\<close>; and a request without id is not answered at all, a \<^verbatim>\<open>KeyError\<close> leaves
  the dispatcher.
\<close>

theorem base_route_method_not_found_counterexample:
  "length (methods example_handlers) = 23
   \<and> distinct (map fst (methods example_handlers))
   \<and> base_route example_handlers (request ''starknet_doesNotExist'' (PyList []) (PyInt 6))
       = Inr (Error PyNone (RpcErrorCode_value METHOD_NOT_FOUND) ''Method not found'')
   \<and> base_route example_handlers (PyDict [(''method'', PyStr ''starknet_doesNotExist'')])
       = Inl (KeyError ''id'')"
proof -
  have "length (methods example_handlers) = 23"
    by (simp add: methods_def)
  moreover have "distinct (map fst (methods example_handlers))"
    unfolding method_names by simp
  moreover have
    "base_route example_handlers (request ''starknet_doesNotExist'' (PyList []) (PyInt 6))
       = Inr (Error PyNone (RpcErrorCode_value METHOD_NOT_FOUND) ''Method not found'')"
    by (simp add: base_route_def parse_doesNotExist rpc_error_def)
  moreover have
    "base_route example_handlers (PyDict [(''method'', PyStr ''starknet_doesNotExist'')])
       = Inl (KeyError ''id'')"
    by (simp add: base_route_def parse_body_def parse_body_try_def)
  ultimately show ?thesis by simp
qed

text \<open>
  C6, amended. For every request that is an object with an id field and a string as its
  method field, whose method name (after deleting every occurrence of \<open>"starknet_"\<close>) is
  not one of the 23 registered names, the response is an error envelope whose code is
  MethodNotFound and whose message is exactly \<open>"Method not found"\<close>.
\<close>

theorem base_route_method_not_found:
  assumes "map_of kvs ''method'' = Some (PyStr m)"
    and "map_of kvs ''id'' = Some i"
    and "replace ''starknet_'' '''' m \<notin> set (map fst (methods hs))"
  shows "is_error_response (RpcErrorCode_value METHOD_NOT_FOUND) ''Method not found''
           (base_route hs (PyDict kvs))
       \<and> length (map fst (methods hs)) = 23 \<and> distinct (map fst (methods hs))"
proof -
  from assms(3) have "map_of (methods hs) (replace ''starknet_'' '''' m) = None"
    by (simp add: map_of_eq_None_iff)
  from parse_body_not_found [OF assms(1,2) this]
  have "is_error_response (RpcErrorCode_value METHOD_NOT_FOUND) ''Method not found''
           (base_route hs (PyDict kvs))"
    by (simp add: base_route_def rpc_error_def)
  moreover have "length (map fst (methods hs)) = 23" "distinct (map fst (methods hs))"
    unfolding method_names by simp_all
  ultimately show ?thesis by simp
qed

theorem base_route_method_not_found_witness:
  "is_error_response (- 32601) ''Method not found''
     (base_route example_handlers (request ''starknet_doesNotExist'' (PyList []) (PyInt 6)))"
  using base_route_method_not_found
      [where kvs = "[(''method'', PyStr ''starknet_doesNotExist''), (''params'', PyList []),
                     (''id'', PyInt 6)]"
         and hs = example_handlers and i = "PyInt 6" and m = "''starknet_doesNotExist''"]
  by (simp add: request_def name_doesNotExist method_names)

lemma replace_leading:
  "replace ''starknet_'' '''' (''starknet_'' @ s) = replace ''starknet_'' '''' s"
  by (subst replace.simps) simp

lemma parse_body_update_method:
  assumes "replace ''starknet_'' '''' n = m"
    and "map_of (methods hs) m = Some h"
    and "map_of kvs ''id'' = Some i"
  shows "parse_body hs (PyDict (AList.update ''method'' (PyStr n) kvs)) =
     (case map_of kvs ''params'' of
        None \<Rightarrow> Inr (h, PyDict [], i)
      | Some p \<Rightarrow>
          if \<not> truthy p then Inr (h, PyDict [], i)
          else if is_list_or_dict p then Inr (h, p, i)
          else Inl (RpcError (RpcErrorCode_value INVALID_PARAMS) ''Invalid params''))"
proof -
  let ?kvs = "AList.update ''method'' (PyStr n) kvs"
  have 1: "map_of ?kvs ''method'' = Some (PyStr n)" by (simp add: update_conv')
  have 2: "map_of ?kvs ''id'' = Some i" using assms(3) by (simp add: update_conv')
  have 3: "map_of ?kvs ''params'' = map_of kvs ''params''" by (simp add: update_conv')
  have 4: "map_of (methods hs) (replace ''starknet_'' '''' n) = Some h"
    using assms(1,2) by simp
  show ?thesis using parse_body_found [OF 1 2 4] by (simp only: 3)
qed

lemma parse_body_try_update_method:
  "replace ''starknet_'' '''' n = replace ''starknet_'' '''' n' \<Longrightarrow>
   parse_body_try (PyDict (AList.update ''method'' (PyStr n) kvs))
     = parse_body_try (PyDict (AList.update ''method'' (PyStr n') kvs))"
  by (cases "map_of kvs ''id''") (simp_all add: parse_body_try_dict update_conv')

text \<open>
  C10. For every registered bare method name \<open>m\<close> with its handler \<open>h\<close>, a request whose
  method field is \<open>m\<close> without the \<open>"starknet_"\<close> prefix resolves to exactly the same handler
  as a request whose method field is \<open>"starknet_" + m\<close>, the two requests alike in
  everything else: \<open>parse_body\<close> and \<open>base_route\<close> give the same outcome for both, and for
  a request with an id \<open>parse_body\<close> returns \<open>h\<close> itself (with the params and the id)
  unless it rejects the params. Name resolution deletes the occurrences of \<open>"starknet_"\<close>
  wherever they are: \<open>m\<close> with \<open>"starknet_"\<close> appended, or both prepended and appended, makes
  \<open>parse_body\<close> return the same.
\<close>

theorem parse_body_prefix_optional:
  assumes "map_of (methods hs) m = Some h"
  shows "parse_body hs (PyDict (AList.update ''method'' (PyStr (''starknet_'' @ m)) kvs))
           = parse_body hs (PyDict (AList.update ''method'' (PyStr m) kvs))
       \<and> base_route hs (PyDict (AList.update ''method'' (PyStr (''starknet_'' @ m)) kvs))
           = base_route hs (PyDict (AList.update ''method'' (PyStr m) kvs))
       \<and> (map_of kvs ''id'' = Some i \<longrightarrow>
            parse_body hs (PyDict (AList.update ''method'' (PyStr m) kvs))
              = (case map_of kvs ''params'' of
                   None \<Rightarrow> Inr (h, PyDict [], i)
                 | Some p \<Rightarrow>
                     if \<not> truthy p then Inr (h, PyDict [], i)
                     else if is_list_or_dict p then Inr (h, p, i)
                     else Inl (RpcError (RpcErrorCode_value INVALID_PARAMS)
                                 ''Invalid params''))
            \<and> parse_body hs (PyDict (AList.update ''method'' (PyStr (m @ ''starknet_'')) kvs))
              = parse_body hs (PyDict (AList.update ''method'' (PyStr m) kvs))
            \<and> parse_body hs
                 (PyDict (AList.update ''method'' (PyStr (''starknet_'' @ m @ ''starknet_'')) kvs))
              = parse_body hs (PyDict (AList.update ''method'' (PyStr m) kvs)))
       \<and> (map_of kvs ''id'' = Some i \<and> map_of kvs ''params'' = Some (PyList (x # xs)) \<longrightarrow>
            parse_body hs (PyDict (AList.update ''method'' (PyStr m) kvs))
              = Inr (h, PyList (x # xs), i)
            \<and> parse_body hs (PyDict (AList.update ''method'' (PyStr (''starknet_'' @ m)) kvs))
              = Inr (h, PyList (x # xs), i))"
proof -
  have mem: "m \<in> set (map fst (methods hs))"
    using assms by (force dest: map_of_SomeD)
  have fixed: "replace ''starknet_'' '''' m = m"
    using mem unfolding method_names by (auto simp: replace_eval)
  have trailing: "replace ''starknet_'' '''' (m @ ''starknet_'') = m"
    using mem unfolding method_names by (auto simp: replace_eval)
  have leading: "replace ''starknet_'' '''' (''starknet_'' @ m) = m"
    by (simp only: replace_leading fixed)
  have both: "replace ''starknet_'' '''' (''starknet_'' @ m @ ''starknet_'') = m"
    by (simp only: replace_leading trailing)
  have try_eq:
    "parse_body_try (PyDict (AList.update ''method'' (PyStr (''starknet_'' @ m)) kvs))
       = parse_body_try (PyDict (AList.update ''method'' (PyStr m) kvs))"
    by (rule parse_body_try_update_method) (simp only: fixed leading)
  have eq: "parse_body hs (PyDict (AList.update ''method'' (PyStr (''starknet_'' @ m)) kvs))
           = parse_body hs (PyDict (AList.update ''method'' (PyStr m) kvs))"
    using try_eq by (simp only: parse_body_def)
  have eq2: "base_route hs (PyDict (AList.update ''method'' (PyStr (''starknet_'' @ m)) kvs))
           = base_route hs (PyDict (AList.update ''method'' (PyStr m) kvs))"
    using eq by (simp only: base_route_def)
  note r1 = parse_body_update_method [OF fixed assms]
  note r2 = parse_body_update_method [OF leading assms]
  note r3 = parse_body_update_method [OF trailing assms]
  note r4 = parse_body_update_method [OF both assms]
  show ?thesis
    using eq eq2 r1 [of kvs i] r2 [of kvs i] r3 [of kvs i] r4 [of kvs i]
    by (auto simp del: append.simps)
qed

theorem parse_body_prefix_optional_witness:
  "parse_body example_handlers (request ''starknet_chainId'' (PyList [PyInt 1]) (PyInt 1))
     = Inr (example_chain_id, PyList [PyInt 1], PyInt 1)
   \<and> parse_body example_handlers (request ''chainId'' (PyList [PyInt 1]) (PyInt 1))
     = Inr (example_chain_id, PyList [PyInt 1], PyInt 1)
   \<and> parse_body example_handlers (request ''chainIdstarknet_'' (PyList [PyInt 1]) (PyInt 1))
     = Inr (example_chain_id, PyList [PyInt 1], PyInt 1)
   \<and> parse_body example_handlers
        (request ''starknet_chainIdstarknet_'' (PyList [PyInt 1]) (PyInt 1))
     = Inr (example_chain_id, PyList [PyInt 1], PyInt 1)"
proof -
  have h: "map_of (methods example_handlers) ''chainId'' = Some example_chain_id"
    by (simp add: methods_def example_handlers_def)
  show ?thesis
    using parse_body_prefix_optional
      [OF h, where i = "PyInt 1" and x = "PyInt 1" and xs = "[]"
         and kvs = "[(''method'', PyNone), (''params'', PyList [PyInt 1]), (''id'', PyInt 1)]"]
    by (simp add: request_def)
qed

end
